theory Spec2Isabelle
  imports Main "HOL-Library.Sublist"
begin

section \<open>The build script \<open>setup.py\<close> of the \<open>cgraph\<close> package\<close>

text \<open>
  The script builds three \<open>Extension\<close> objects and hands them, with three more keyword
  arguments, to \<open>setup\<close>. Its only computation is \<open>os.path.join\<close>, whose result depends
  on the platform the script runs on, so every value below is a function of the platform.
\<close>

subsection \<open>Platforms and \<open>os.path.join\<close>\<close>

datatype platform = Posix | Windows

text \<open>\<open>os.sep\<close>: the slash on POSIX, the backslash (code 0x5C) on Windows.\<close>

fun sep :: "platform \<Rightarrow> char" where
  "sep Posix = CHR ''/''"
| "sep Windows = CHR 0x5C"

text \<open>The characters \<open>os.path\<close> accepts as separators (\<open>os.sep\<close> and \<open>os.altsep\<close>).\<close>

fun seps :: "platform \<Rightarrow> char list" where
  "seps Posix = [CHR ''/'']"
| "seps Windows = [CHR 0x5C, CHR ''/'']"

text \<open>
  \<open>os.path.join a b\<close> for two components without a drive letter (the script passes
  nothing else): a second component that starts with a separator replaces the first; an
  empty first component, or one that already ends with a separator, is extended as it is;
  otherwise the platform separator is put between the two.
\<close>

definition path_join :: "platform \<Rightarrow> string \<Rightarrow> string \<Rightarrow> string" where
  "path_join pl a b =
     (if b \<noteq> [] \<and> hd b \<in> set (seps pl) then b
      else if a = [] \<or> last a \<in> set (seps pl) then a @ b
      else a @ [sep pl] @ b)"

subsection \<open>The objects the script builds\<close>

text \<open>\<open>Extension(name, sources)\<close>: the two positional arguments the script gives.\<close>

record extension =
  name :: string
  sources :: "string list"

text \<open>
  The command classes a \<open>build_ext\<close> command can be run by: the one the script imports
  from \<open>Cython.Distutils\<close>, and the one distutils uses when nothing overrides it.
\<close>

datatype command_class = Cython_build_ext | Distutils_build_ext

text \<open>The keyword arguments of the \<open>setup\<close> call, the two dictionaries as maps.\<close>

record setup_args =
  cmdclass :: "string \<rightharpoonup> command_class"
  ext_modules :: "extension list"
  package_dir :: "string \<rightharpoonup> string"
  packages :: "string list"

definition c_collections :: "platform \<Rightarrow> extension" where
  "c_collections pl =
     \<lparr>name = ''cgraph.c_collections'',
      sources = [path_join pl ''cgraph'' ''c_collections.pyx'']\<rparr>"

definition dagraph :: "platform \<Rightarrow> extension" where
  "dagraph pl =
     \<lparr>name = ''cgraph.dagraph'',
      sources = [path_join pl ''cgraph'' ''dagraph.pyx'']\<rparr>"

definition iterators :: "platform \<Rightarrow> extension" where
  "iterators pl =
     \<lparr>name = ''cgraph.iterators'',
      sources = [path_join pl ''cgraph'' ''iterators.pyx'']\<rparr>"

text \<open>The arguments of the one \<open>setup\<close> call, in the order the script writes them.\<close>

definition setup_call :: "platform \<Rightarrow> setup_args" where
  "setup_call pl =
     \<lparr>cmdclass = [''build_ext'' \<mapsto> Cython_build_ext],
      ext_modules = [c_collections pl, dagraph pl, iterators pl],
      package_dir = [''cgraph'' \<mapsto> ''./cgraph''],
      packages = [''cgraph'']\<rparr>"

subsection \<open>Running the script\<close>










subsection \<open>Vocabulary of the properties\<close>

text \<open>
  \<open>os.path.basename\<close>: what follows the last separator (the whole path when it has none).
\<close>

definition basename :: "platform \<Rightarrow> string \<Rightarrow> string" where
  "basename pl p = rev (takeWhile (\<lambda>c. c \<notin> set (seps pl)) (rev p))"

definition rstrip_seps :: "platform \<Rightarrow> string \<Rightarrow> string" where
  "rstrip_seps pl p = rev (dropWhile (\<lambda>c. c \<in> set (seps pl)) (rev p))"

text \<open>
  \<open>os.path.dirname\<close> (of a path without a drive letter): what precedes the basename,
  without its trailing separators unless it consists of separators only.
\<close>

definition dirname :: "platform \<Rightarrow> string \<Rightarrow> string" where
  "dirname pl p =
     (let head = rev (dropWhile (\<lambda>c. c \<notin> set (seps pl)) (rev p))
      in if rstrip_seps pl head = [] then head else rstrip_seps pl head)"

text \<open>\<open>str.removesuffix\<close>: the string without the given ending, unchanged if it ends otherwise.\<close>

definition removesuffix :: "string \<Rightarrow> string \<Rightarrow> string" where
  "removesuffix suf s = (if suffix suf s then take (length s - length suf) s else s)"

text \<open>
  The package of a dotted module name: what precedes its last dot (empty for a name
  without a dot). This is how distutils finds the package an extension belongs to.
\<close>

definition package_of :: "string \<Rightarrow> string" where
  "package_of n = rev (drop 1 (dropWhile (\<lambda>c. c \<noteq> CHR ''.'') (rev n)))"

text \<open>
  The class that runs the \<open>build_ext\<close> command: distutils looks the command name up in
  \<open>cmdclass\<close> first and falls back to its own class when the name is not a key.
\<close>

definition build_ext_class :: "(string \<rightharpoonup> command_class) \<Rightarrow> command_class" where
  "build_ext_class cc = (case cc ''build_ext'' of Some k \<Rightarrow> k | None \<Rightarrow> Distutils_build_ext)"

subsection \<open>What distutils does with the arguments\<close>

text \<open>
  The \<open>build_ext\<close> command takes its extensions from \<open>ext_modules\<close> and builds them one
  after the other: each extension's sources go to the command object, an instance of the
  class found for \<open>build_ext\<close>.
\<close>

definition build_ext_jobs :: "setup_args \<Rightarrow> (command_class \<times> string \<times> string list) list" where
  "build_ext_jobs cfg =
     map (\<lambda>e. (build_ext_class (cmdclass cfg), name e, sources e)) (ext_modules cfg)"















section \<open>Properties\<close>

subsection \<open>The list of extensions\<close>

text \<open>
  Claim C1. The script declares exactly three extension modules. The \<open>ext_modules\<close> list
  given to \<open>setup\<close> holds the extensions named \<open>cgraph.c_collections\<close>, \<open>cgraph.dagraph\<close>
  and \<open>cgraph.iterators\<close>, in this order, and nothing else; this is so on every platform.
\<close>

theorem ext_modules_names:
  "map name (ext_modules (setup_call pl)) =
     [''cgraph.c_collections'', ''cgraph.dagraph'', ''cgraph.iterators'']
   \<and> ext_modules (setup_call pl) = [c_collections pl, dagraph pl, iterators pl]
   \<and> length (ext_modules (setup_call pl)) = 3"
  by (simp add: setup_call_def c_collections_def dagraph_def iterators_def)

subsection \<open>Sources of the extensions\<close>

lemma setup_call_sources:
  "map (\<lambda>e. (name e, sources e)) (ext_modules (setup_call pl)) =
     [(''cgraph.c_collections'', [''cgraph'' @ [sep pl] @ ''c_collections.pyx'']),
      (''cgraph.dagraph'', [''cgraph'' @ [sep pl] @ ''dagraph.pyx'']),
      (''cgraph.iterators'', [''cgraph'' @ [sep pl] @ ''iterators.pyx''])]"
  by (cases pl)
    (simp_all add: setup_call_def c_collections_def dagraph_def iterators_def path_join_def)

text \<open>
  Claim C2. Every declared extension has exactly one source path, and the extensions map
  to their sources as follows: \<open>cgraph.c_collections\<close> to \<open>c_collections.pyx\<close>,
  \<open>cgraph.dagraph\<close> to \<open>dagraph.pyx\<close> and \<open>cgraph.iterators\<close> to \<open>iterators.pyx\<close>, each in
  the directory \<open>cgraph\<close> and joined to it with the separator of the platform; with the
  slash of POSIX the three paths are \<open>cgraph/c_collections.pyx\<close>, \<open>cgraph/dagraph.pyx\<close> and
  \<open>cgraph/iterators.pyx\<close>.
\<close>

theorem extension_sources:
  "(\<forall>e \<in> set (ext_modules (setup_call pl)). length (sources e) = 1)
   \<and> map (\<lambda>e. (name e, sources e)) (ext_modules (setup_call pl)) =
       [(''cgraph.c_collections'', [''cgraph'' @ [sep pl] @ ''c_collections.pyx'']),
        (''cgraph.dagraph'', [''cgraph'' @ [sep pl] @ ''dagraph.pyx'']),
        (''cgraph.iterators'', [''cgraph'' @ [sep pl] @ ''iterators.pyx''])]
   \<and> map (\<lambda>e. (name e, sources e)) (ext_modules (setup_call Posix)) =
       [(''cgraph.c_collections'', [''cgraph/c_collections.pyx'']),
        (''cgraph.dagraph'', [''cgraph/dagraph.pyx'']),
        (''cgraph.iterators'', [''cgraph/iterators.pyx''])]"
proof (intro conjI)
  show "\<forall>e \<in> set (ext_modules (setup_call pl)). length (sources e) = 1"
    by (simp add: setup_call_def c_collections_def dagraph_def iterators_def)
next
  show "map (\<lambda>e. (name e, sources e)) (ext_modules (setup_call pl)) =
       [(''cgraph.c_collections'', [''cgraph'' @ [sep pl] @ ''c_collections.pyx'']),
        (''cgraph.dagraph'', [''cgraph'' @ [sep pl] @ ''dagraph.pyx'']),
        (''cgraph.iterators'', [''cgraph'' @ [sep pl] @ ''iterators.pyx''])]"
    by (rule setup_call_sources)
next
  show "map (\<lambda>e. (name e, sources e)) (ext_modules (setup_call Posix)) =
       [(''cgraph.c_collections'', [''cgraph/c_collections.pyx'']),
        (''cgraph.dagraph'', [''cgraph/dagraph.pyx'']),
        (''cgraph.iterators'', [''cgraph/iterators.pyx''])]"
    using setup_call_sources [of Posix] by simp
qed

theorem extension_sources_witness:
  "dagraph Windows \<in> set (ext_modules (setup_call Windows))
   \<and> length (sources (dagraph Windows)) = 1"
proof -
  have m: "dagraph Windows \<in> set (ext_modules (setup_call Windows))"
    by (simp add: setup_call_def)
  from extension_sources [of Windows] m show ?thesis by blast
qed

subsection \<open>Names and paths\<close>

text \<open>
  Claim C5. For every extension in \<open>ext_modules\<close>: it has a single source file; its module
  name is \<open>cgraph.\<close> followed by the basename of that file with the suffix \<open>.pyx\<close> removed;
  and the directory component of that source path is \<open>cgraph\<close>.
\<close>

theorem naming_invariant:
  "\<forall>e \<in> set (ext_modules (setup_call pl)).
     (\<exists>src. sources e = [src]
        \<and> name e = ''cgraph.'' @ removesuffix ''.pyx'' (basename pl src)
        \<and> dirname pl src = ''cgraph'')"
  by (cases pl)
    (simp_all add: setup_call_def c_collections_def dagraph_def iterators_def path_join_def
      basename_def dirname_def rstrip_seps_def removesuffix_def suffix_def)

theorem naming_invariant_witness:
  "iterators Posix \<in> set (ext_modules (setup_call Posix))
   \<and> (\<exists>src. sources (iterators Posix) = [src]
        \<and> name (iterators Posix) = ''cgraph.'' @ removesuffix ''.pyx'' (basename Posix src)
        \<and> dirname Posix src = ''cgraph'')"
proof -
  have m: "iterators Posix \<in> set (ext_modules (setup_call Posix))"
    by (simp add: setup_call_def)
  from naming_invariant [of Posix] m show ?thesis by blast
qed

subsection \<open>Packages\<close>













text \<open>
  Claim C9. The single entry of \<open>packages\<close>, \<open>cgraph\<close>, is the only key of \<open>package_dir\<close>.
  Every extension name in \<open>ext_modules\<close> starts with that package name and a dot, and what
  precedes its last dot is exactly that package name: no extension is declared outside
  the declared package.
\<close>

theorem package_name_consistency:
  "packages (setup_call pl) = [''cgraph'']
   \<and> dom (package_dir (setup_call pl)) = {''cgraph''}
   \<and> dom (package_dir (setup_call pl)) = set (packages (setup_call pl))
   \<and> (\<forall>e \<in> set (ext_modules (setup_call pl)).
        prefix (hd (packages (setup_call pl)) @ ''.'') (name e)
        \<and> package_of (name e) = hd (packages (setup_call pl))
        \<and> package_of (name e) \<in> set (packages (setup_call pl)))"
  by (simp add: setup_call_def c_collections_def dagraph_def iterators_def package_of_def)

theorem package_name_consistency_witness:
  "dagraph Posix \<in> set (ext_modules (setup_call Posix))
   \<and> prefix (hd (packages (setup_call Posix)) @ ''.'') (name (dagraph Posix))
   \<and> package_of (name (dagraph Posix)) = hd (packages (setup_call Posix))
   \<and> package_of (name (dagraph Posix)) \<in> set (packages (setup_call Posix))"
proof -
  have m: "dagraph Posix \<in> set (ext_modules (setup_call Posix))"
    by (simp add: setup_call_def)
  from package_name_consistency [of Posix] m show ?thesis by blast
qed

subsection \<open>The build command\<close>

text \<open>
  Claim C8. The \<open>cmdclass\<close> argument maps the command \<open>build_ext\<close> to the \<open>build_ext\<close> class
  of \<open>Cython.Distutils\<close>. So the class that runs \<open>build_ext\<close> is Cython's and not the
  default of distutils (which an empty \<open>cmdclass\<close> would give), and what it is given to
  build is exactly the three declared sources, one for each extension and each a \<open>.pyx\<close>
  file.
\<close>

theorem build_ext_override:
  "cmdclass (setup_call pl) ''build_ext'' = Some Cython_build_ext
   \<and> build_ext_class (cmdclass (setup_call pl)) = Cython_build_ext
   \<and> build_ext_class (cmdclass (setup_call pl)) \<noteq> build_ext_class Map.empty
   \<and> build_ext_class Map.empty = Distutils_build_ext
   \<and> (\<forall>e \<in> set (ext_modules (setup_call pl)). \<forall>s \<in> set (sources e). suffix ''.pyx'' s)
   \<and> build_ext_jobs (setup_call pl) =
       [(Cython_build_ext, ''cgraph.c_collections'', [''cgraph'' @ [sep pl] @ ''c_collections.pyx'']),
        (Cython_build_ext, ''cgraph.dagraph'', [''cgraph'' @ [sep pl] @ ''dagraph.pyx'']),
        (Cython_build_ext, ''cgraph.iterators'', [''cgraph'' @ [sep pl] @ ''iterators.pyx''])]
   \<and> concat (map sources (ext_modules (setup_call pl))) =
       [''cgraph'' @ [sep pl] @ ''c_collections.pyx'', ''cgraph'' @ [sep pl] @ ''dagraph.pyx'',
        ''cgraph'' @ [sep pl] @ ''iterators.pyx'']
   \<and> list_all (suffix ''.pyx'') (concat (map sources (ext_modules (setup_call pl))))"
  by (cases pl)
    (simp_all add: setup_call_def c_collections_def dagraph_def iterators_def path_join_def
      build_ext_class_def build_ext_jobs_def suffix_def)

theorem build_ext_override_witness:
  "iterators Windows \<in> set (ext_modules (setup_call Windows))
   \<and> ''cgraph'' @ [CHR 0x5C] @ ''iterators.pyx'' \<in> set (sources (iterators Windows))
   \<and> suffix ''.pyx'' (''cgraph'' @ [CHR 0x5C] @ ''iterators.pyx'')"
proof -
  have m: "iterators Windows \<in> set (ext_modules (setup_call Windows))"
    by (simp add: setup_call_def)
  have n: "''cgraph'' @ [CHR 0x5C] @ ''iterators.pyx'' \<in> set (sources (iterators Windows))"
    by (simp add: iterators_def path_join_def)
  from build_ext_override [of Windows] m n show ?thesis by blast
qed

subsection \<open>Independence of the environment\<close>

text \<open>
  The platform does matter: the source paths are joined with its separator.
\<close>

lemma setup_call_platform: "setup_call Posix \<noteq> setup_call Windows"
proof
  assume "setup_call Posix = setup_call Windows"
  then have "ext_modules (setup_call Posix) = ext_modules (setup_call Windows)"
    by simp
  then show False
    by (simp add: setup_call_def c_collections_def path_join_def)
qed







end
